theory Spec2Isabelle
  imports Main
begin

section \<open>Python values\<close>

text \<open>
  The client of \<^verbatim>\<open>algo_sdk/client.py\<close> moves JSON-like Python values around: request
  bodies and query parameters are dictionaries, and a decoded response is whatever
  \<^verbatim>\<open>response.json()\<close> yields. A dictionary keeps its insertion order, so it is an
  association list.
\<close>

datatype pyval =
    PyNone
  | PyBool bool
  | PyInt int
  | PyStr string
  | PyList "pyval list"
  | PyDict "(string \<times> pyval) list"

type_synonym pydict = "(string \<times> pyval) list"

text \<open>Python's truth value of an object, as tested by \<^verbatim>\<open>if name:\<close>.\<close>

fun truthy :: "pyval \<Rightarrow> bool" where
  "truthy PyNone = False"
| "truthy (PyBool b) = b"
| "truthy (PyInt i) = (i \<noteq> 0)"
| "truthy (PyStr s) = (s \<noteq> [])"
| "truthy (PyList xs) = (xs \<noteq> [])"
| "truthy (PyDict d) = (d \<noteq> [])"

text \<open>\<^verbatim>\<open>d[k] = v\<close>: an existing key keeps its position, a new key goes last.\<close>

fun dict_set :: "(string \<times> 'v) list \<Rightarrow> string \<Rightarrow> 'v \<Rightarrow> (string \<times> 'v) list" where
  "dict_set [] k v = [(k, v)]"
| "dict_set ((k', v') # d) k v =
     (if k' = k then (k', v) # d else (k', v') # dict_set d k v)"


definition dict_get :: "(string \<times> 'v) list \<Rightarrow> string \<Rightarrow> 'v option" where
  "dict_get d k = map_of d k"


text \<open>An argument typed \<^verbatim>\<open>Optional[str] = None\<close> (and so on), seen as a Python value.\<close>

definition opt_str :: "string option \<Rightarrow> pyval" where
  "opt_str a = (case a of None \<Rightarrow> PyNone | Some s \<Rightarrow> PyStr s)"



text \<open>
  The recurring statement pair \<^verbatim>\<open>if x: data[k] = x\<close> of the resource classes.
\<close>

definition set_if_truthy :: "pydict \<Rightarrow> string \<Rightarrow> pyval \<Rightarrow> pydict" where
  "set_if_truthy d k v = (if truthy v then dict_set d k v else d)"

subsection \<open>Strings\<close>

text \<open>\<^verbatim>\<open>str(n)\<close> for an integer, as an f-string renders it.\<close>

definition digit_char :: "nat \<Rightarrow> char" where
  "digit_char n = char_of (48 + n)"

function str_nat :: "nat \<Rightarrow> string" where
  "str_nat n = (if n < 10 then [digit_char n] else str_nat (n div 10) @ [digit_char (n mod 10)])"
  by pat_completeness auto
termination
  by (relation "measure (\<lambda>n. n)") auto

declare str_nat.simps [simp del]

definition str_int :: "int \<Rightarrow> string" where
  "str_int i = (if i < 0 then CHR ''-'' # str_nat (nat (- i)) else str_nat (nat i))"

text \<open>\<^verbatim>\<open>s.rstrip("/")\<close> and \<^verbatim>\<open>s.upper()\<close> (on ASCII letters).\<close>

definition rstrip_slash :: "string \<Rightarrow> string" where
  "rstrip_slash s = rev (dropWhile (\<lambda>c. c = CHR ''/'') (rev s))"

definition upper_char :: "char \<Rightarrow> char" where
  "upper_char c =
     (let n = (of_char c :: nat) in if 97 \<le> n \<and> n \<le> 122 then char_of (n - 32) else c)"

definition upper :: "string \<Rightarrow> string" where
  "upper s = map upper_char s"

section \<open>Exceptions (\<^verbatim>\<open>exceptions.py\<close>)\<close>

text \<open>
  \<^verbatim>\<open>AlgoAPIError\<close> is the base class; the four others subclass it without adding
  anything. An instance holds \<^verbatim>\<open>message\<close>, \<^verbatim>\<open>status_code\<close> (default \<^verbatim>\<open>None\<close>) and
  \<^verbatim>\<open>response\<close> (default \<^verbatim>\<open>None\<close>).
\<close>

datatype error_class =
    AlgoAPIError
  | AlgoAuthError
  | AlgoNotFoundError
  | AlgoValidationError
  | AlgoRateLimitError

record algo_error =
  error_class :: error_class
  message :: string
  error_status_code :: "int option"
  error_response :: pyval

definition raise_error :: "error_class \<Rightarrow> string \<Rightarrow> int option \<Rightarrow> pyval \<Rightarrow> algo_error" where
  "raise_error k msg sc resp =
     \<lparr>error_class = k, message = msg, error_status_code = sc, error_response = resp\<rparr>"

section \<open>The HTTP session\<close>

text \<open>
  \<^verbatim>\<open>AlgoSDK.__init__\<close> mounts an \<^verbatim>\<open>HTTPAdapter\<close> whose retry strategy is
  \<^verbatim>\<open>Retry(total=max_retries, backoff_factor=1, status_forcelist=[429, 500, 502, 503, 504],
  method_whitelist=["HEAD", "GET", "OPTIONS", "POST", "PUT", "DELETE"])\<close>.
  What that configuration does is the behaviour of the libraries the package depends on
  (\<^verbatim>\<open>requests>=2.31.0\<close> in \<^verbatim>\<open>setup.py\<close>, with the urllib3 1.26 line, the one that still
  accepts the keyword \<^verbatim>\<open>method_whitelist\<close>). This section writes that behaviour down, function by
  function, under the libraries' own names; the values of the configuration are the ones of
  \<^verbatim>\<open>client.py\<close>. All other options of \<^verbatim>\<open>Retry\<close> keep their defaults, in particular
  \<^verbatim>\<open>raise_on_status=True\<close> and \<^verbatim>\<open>respect_retry_after_header=True\<close>.

  The model leaves out redirects (every answer is a final one) and proxies.
\<close>

text \<open>
  A response body, seen through the two ways \<^verbatim>\<open>_request\<close> looks at it: the truth value of
  \<^verbatim>\<open>response.content\<close>, and \<^verbatim>\<open>response.json()\<close>. Empty content is not JSON, so
  \<^verbatim>\<open>json()\<close> raises on it.
\<close>

datatype body =
    Empty
  | NotJson string
  | IsJson pyval

record http_response =
  status_code :: int
  content :: body
  retry_after :: "nat option"

text \<open>
  The subclasses of \<^verbatim>\<open>requests.exceptions.RequestException\<close> that can reach \<^verbatim>\<open>_request\<close>:
  a connection or timeout failure, \<^verbatim>\<open>RetryError\<close> (retries exhausted on a status of the
  force list) and \<^verbatim>\<open>JSONDecodeError\<close> (which \<^verbatim>\<open>requests\<close> derives from
  \<^verbatim>\<open>RequestException\<close> through \<^verbatim>\<open>InvalidJSONError\<close>). Each carries its text, which
  \<^verbatim>\<open>_request\<close> only copies into a message; for \<^verbatim>\<open>RetryError\<close> it is cut down to the cause
  that urllib3 names.
\<close>

datatype request_exception =
    TransportError string
  | RetryError string
  | JSONDecodeError string

fun str_exception :: "request_exception \<Rightarrow> string" where
  "str_exception (TransportError s) = s"
| "str_exception (RetryError s) = s"
| "str_exception (JSONDecodeError s) = s"

definition content_truthy :: "http_response \<Rightarrow> bool" where
  "content_truthy r = (content r \<noteq> Empty)"

definition response_json :: "http_response \<Rightarrow> request_exception + pyval" where
  "response_json r =
     (case content r of
        Empty \<Rightarrow> Inl (JSONDecodeError ''Expecting value: line 1 column 1 (char 0)'')
      | NotJson s \<Rightarrow> Inl (JSONDecodeError ''Expecting value: line 1 column 1 (char 0)'')
      | IsJson v \<Rightarrow> Inr v)"

text \<open>What one attempt on the wire comes to: a failure without a response, or a response.\<close>

datatype failure = ConnectFailure string | ReadFailure string

datatype attempt = Failed failure | Answered http_response

fun str_failure :: "failure \<Rightarrow> string" where
  "str_failure (ConnectFailure s) = s"
| "str_failure (ReadFailure s) = s"

fun is_read_error :: "failure \<Rightarrow> bool" where
  "is_read_error (ConnectFailure s) = False"
| "is_read_error (ReadFailure s) = True"

text \<open>The request as it leaves the session, headers merged in.\<close>

record outgoing =
  req_method :: string
  req_url :: string
  req_headers :: "(string \<times> string) list"
  req_params :: "pydict option"
  req_json :: "pydict option"
  req_timeout :: int

type_synonym server = "outgoing \<Rightarrow> nat \<Rightarrow> attempt"

subsection \<open>The retry strategy\<close>

definition status_forcelist :: "int list" where
  "status_forcelist = [429, 500, 502, 503, 504]"

definition method_whitelist :: "string list" where
  "method_whitelist = [''HEAD'', ''GET'', ''OPTIONS'', ''POST'', ''PUT'', ''DELETE'']"

definition backoff_factor :: nat where
  "backoff_factor = 1"

definition RETRY_AFTER_STATUS_CODES :: "int list" where
  "RETRY_AFTER_STATUS_CODES = [413, 429, 503]"

definition DEFAULT_BACKOFF_MAX :: nat where
  "DEFAULT_BACKOFF_MAX = 120"

definition is_method_retryable :: "string \<Rightarrow> bool" where
  "is_method_retryable m = (upper m \<in> set method_whitelist)"

text \<open>
  \<^verbatim>\<open>Retry.is_retry\<close>; \<open>tot\<close> (the library's \<^verbatim>\<open>total\<close>) is the number of retries still
  allowed.
\<close>

definition is_retry :: "int \<Rightarrow> string \<Rightarrow> int \<Rightarrow> bool \<Rightarrow> bool" where
  "is_retry tot m status has_retry_after =
     (if \<not> is_method_retryable m then False
      else if status \<in> set status_forcelist then True
      else tot \<noteq> 0 \<and> has_retry_after \<and> status \<in> set RETRY_AFTER_STATUS_CODES)"

text \<open>
  \<^verbatim>\<open>Retry.is_exhausted\<close>: of the counters only \<^verbatim>\<open>total\<close> is set, and a counter that is
  zero is not looked at.
\<close>

definition is_exhausted :: "int \<Rightarrow> bool" where
  "is_exhausted tot = (tot \<noteq> 0 \<and> tot < 0)"

text \<open>
  \<^verbatim>\<open>Retry.get_backoff_time\<close>, as a function of the number of failed attempts so far (the
  length of the history).
\<close>

definition get_backoff_time :: "nat \<Rightarrow> nat" where
  "get_backoff_time n =
     (if n \<le> 1 then 0 else min DEFAULT_BACKOFF_MAX (backoff_factor * 2 ^ (n - 1)))"

text \<open>
  \<^verbatim>\<open>Retry.sleep\<close>: the time slept before the next attempt, after \<open>n\<close> failed ones. A
  non-zero \<^verbatim>\<open>Retry-After\<close> of the response takes the place of the backoff.
\<close>

definition sleep_time :: "http_response option \<Rightarrow> nat \<Rightarrow> nat" where
  "sleep_time resp n =
     (case resp of
        None \<Rightarrow> get_backoff_time n
      | Some r \<Rightarrow>
          (case retry_after r of
             None \<Rightarrow> get_backoff_time n
           | Some s \<Rightarrow> if s \<noteq> 0 then s else get_backoff_time n))"

text \<open>What \<^verbatim>\<open>session.request\<close> did: its result, each request put on the wire, each sleep.\<close>

record sent =
  outcome :: "request_exception + http_response"
  wire :: "outgoing list"
  sleeps :: "nat list"

definition too_many :: "int \<Rightarrow> string" where
  "too_many status = ''too many '' @ str_int status @ '' error responses''"

text \<open>
  \<^verbatim>\<open>HTTPConnectionPool.urlopen\<close> with \<^verbatim>\<open>HTTPAdapter.send\<close> around it. \<open>n\<close> counts the
  attempts already made, all of them failed. An attempt that fails, or is answered with a
  status to retry on, decrements \<^verbatim>\<open>total\<close>; when that exhausts the strategy the adapter raises
  (\<^verbatim>\<open>RetryError\<close> for a status, since \<^verbatim>\<open>raise_on_status\<close> is set), otherwise it sleeps and
  tries again. Any other answer is returned.
\<close>

function urlopen :: "(nat \<Rightarrow> attempt) \<Rightarrow> outgoing \<Rightarrow> int \<Rightarrow> nat \<Rightarrow> sent" where
  "urlopen net q tot n =
     (case net n of
        Failed e \<Rightarrow>
          if is_read_error e \<and> \<not> is_method_retryable (req_method q)
          then \<lparr>outcome = Inl (TransportError (str_failure e)), wire = [q], sleeps = []\<rparr>
          else if is_exhausted (tot - 1)
          then \<lparr>outcome = Inl (TransportError (str_failure e)), wire = [q], sleeps = []\<rparr>
          else (let s = urlopen net q (tot - 1) (Suc n)
                in s\<lparr>wire := q # wire s, sleeps := sleep_time None (Suc n) # sleeps s\<rparr>)
      | Answered r \<Rightarrow>
          if is_retry tot (req_method q) (status_code r) (retry_after r \<noteq> None)
          then if is_exhausted (tot - 1)
               then \<lparr>outcome = Inl (RetryError (too_many (status_code r))), wire = [q], sleeps = []\<rparr>
               else (let s = urlopen net q (tot - 1) (Suc n)
                     in s\<lparr>wire := q # wire s, sleeps := sleep_time (Some r) (Suc n) # sleeps s\<rparr>)
          else \<lparr>outcome = Inr r, wire = [q], sleeps = []\<rparr>)"
  by pat_completeness auto
termination
  by (relation "measure (\<lambda>(net, q, tot, n). nat tot)") (auto simp: is_exhausted_def)

declare urlopen.simps [simp del]

section \<open>The client (\<^verbatim>\<open>client.py\<close>)\<close>

text \<open>
  The headers a fresh \<^verbatim>\<open>requests.Session\<close> starts with.
\<close>

definition default_headers :: "(string \<times> string) list" where
  "default_headers =
     [(''User-Agent'', ''python-requests''),
      (''Accept-Encoding'', ''gzip, deflate''),
      (''Accept'', ''*/*''),
      (''Connection'', ''keep-alive'')]"

record client =
  api_key :: "string option"
  base_url :: string
  timeout :: int
  max_retries :: int
  session_headers :: "(string \<times> string) list"

text \<open>
  \<^verbatim>\<open>AlgoSDK.__init__\<close>. The retry strategy is the one of the previous section with
  \<^verbatim>\<open>total = max_retries\<close>.
\<close>

definition AlgoSDK_init :: "string option \<Rightarrow> string \<Rightarrow> int \<Rightarrow> int \<Rightarrow> client" where
  "AlgoSDK_init key url tmo retries =
     (let h = dict_set default_headers ''Content-Type'' ''application/json'';
          h' = (if truthy (opt_str key)
                then dict_set h ''Authorization'' (''Bearer '' @ the key)
                else h)
      in \<lparr>api_key = key, base_url = rstrip_slash url, timeout = tmo,
          max_retries = retries, session_headers = h'\<rparr>)"

text \<open>
  \<^verbatim>\<open>self.session.request(method, url, timeout=self.timeout, **kwargs)\<close>, where the keyword
  arguments the resource classes use are \<^verbatim>\<open>params\<close> and \<^verbatim>\<open>json\<close>.
\<close>

definition prepare ::
  "client \<Rightarrow> string \<Rightarrow> string \<Rightarrow> pydict option \<Rightarrow> pydict option \<Rightarrow> outgoing" where
  "prepare c m url params js =
     \<lparr>req_method = m, req_url = url, req_headers = session_headers c,
      req_params = params, req_json = js, req_timeout = timeout c\<rparr>"

definition session_request ::
  "client \<Rightarrow> server \<Rightarrow> string \<Rightarrow> string \<Rightarrow> pydict option \<Rightarrow> pydict option \<Rightarrow> sent" where
  "session_request c srv m url params js =
     (let q = prepare c m url params js
      in urlopen (srv q) q (max_retries c) 0)"

text \<open>
  The body of the \<^verbatim>\<open>try\<close> of \<^verbatim>\<open>_request\<close>, after the response has arrived. What it
  raises is either one of the SDK's exceptions or one of the library's.
\<close>

datatype raised = Algo algo_error | Lib request_exception

definition check_response :: "http_response \<Rightarrow> raised + pyval" where
  "check_response r =
     (if status_code r = 401 then
        (case response_json r of
           Inl e \<Rightarrow> Inl (Lib e)
         | Inr v \<Rightarrow> Inl (Algo (raise_error AlgoAuthError ''Authentication failed''
                                  (Some (status_code r)) v)))
      else if status_code r = 404 then
        (case response_json r of
           Inl e \<Rightarrow> Inl (Lib e)
         | Inr v \<Rightarrow> Inl (Algo (raise_error AlgoNotFoundError ''Resource not found''
                                  (Some (status_code r)) v)))
      else if status_code r = 400 then
        (case response_json r of
           Inl e \<Rightarrow> Inl (Lib e)
         | Inr v \<Rightarrow> Inl (Algo (raise_error AlgoValidationError ''Validation failed''
                                  (Some (status_code r)) v)))
      else if status_code r = 429 then
        (case response_json r of
           Inl e \<Rightarrow> Inl (Lib e)
         | Inr v \<Rightarrow> Inl (Algo (raise_error AlgoRateLimitError ''Rate limit exceeded''
                                  (Some (status_code r)) v)))
      else if status_code r \<ge> 400 then
        (if content_truthy r then
           (case response_json r of
              Inl e \<Rightarrow> Inl (Lib e)
            | Inr v \<Rightarrow> Inl (Algo (raise_error AlgoAPIError
                                     (''API error: '' @ str_int (status_code r))
                                     (Some (status_code r)) v)))
         else Inl (Algo (raise_error AlgoAPIError
                           (''API error: '' @ str_int (status_code r))
                           (Some (status_code r)) PyNone)))
      else if content_truthy r then
        (case response_json r of Inl e \<Rightarrow> Inl (Lib e) | Inr v \<Rightarrow> Inr v)
      else Inr PyNone)"

text \<open>
  The \<^verbatim>\<open>except requests.exceptions.RequestException\<close> clause: a library exception becomes an
  \<^verbatim>\<open>AlgoAPIError\<close> with the two defaulted fields; the SDK's own exceptions pass through.
\<close>

definition except_clause :: "raised + pyval \<Rightarrow> algo_error + pyval" where
  "except_clause x =
     (case x of
        Inl (Lib e) \<Rightarrow>
          Inl (raise_error AlgoAPIError (''Request failed: '' @ str_exception e) None PyNone)
      | Inl (Algo a) \<Rightarrow> Inl a
      | Inr v \<Rightarrow> Inr v)"

text \<open>\<^verbatim>\<open>AlgoSDK._request\<close>, with the record of what the session did.\<close>

definition AlgoSDK_request ::
  "client \<Rightarrow> server \<Rightarrow> string \<Rightarrow> string \<Rightarrow> pydict option \<Rightarrow> pydict option
     \<Rightarrow> (algo_error + pyval) \<times> sent" where
  "AlgoSDK_request c srv m endpoint params js =
     (let url = base_url c @ endpoint;
          s = session_request c srv m url params js
      in (except_clause
            (case outcome s of Inl e \<Rightarrow> Inl (Lib e) | Inr r \<Rightarrow> check_response r),
          s))"

definition attempts :: "(algo_error + pyval) \<times> sent \<Rightarrow> nat" where
  "attempts x = length (wire (snd x))"

section \<open>The resource classes\<close>

text \<open>
  Each method of a resource class builds a dictionary and hands it to \<^verbatim>\<open>_request\<close> as
  \<^verbatim>\<open>json\<close> or \<^verbatim>\<open>params\<close>. The definitions below are the methods up to that call: they
  give the four arguments of \<^verbatim>\<open>_request\<close>. A parameter with a default is an option, \<open>None\<close>
  when the caller leaves it out. The methods not listed (\<^verbatim>\<open>get\<close>, \<^verbatim>\<open>delete\<close>,
  \<^verbatim>\<open>update\<close>, \<^verbatim>\<open>deploy\<close>, \<^verbatim>\<open>rollback\<close>, \<^verbatim>\<open>read\<close>, \<^verbatim>\<open>usage\<close>,
  \<^verbatim>\<open>limits\<close>) have no parameter with a default.
\<close>

record call =
  call_method :: string
  call_endpoint :: string
  call_params :: "pydict option"
  call_json :: "pydict option"

definition arg_or :: "'a \<Rightarrow> 'a option \<Rightarrow> 'a" where
  "arg_or d a = (case a of None \<Rightarrow> d | Some x \<Rightarrow> x)"

definition perform :: "client \<Rightarrow> server \<Rightarrow> call \<Rightarrow> (algo_error + pyval) \<times> sent" where
  "perform c srv k =
     AlgoSDK_request c srv (call_method k) (call_endpoint k) (call_params k) (call_json k)"


definition UsersAPI_list :: "int option \<Rightarrow> int option \<Rightarrow> string option \<Rightarrow> call" where
  "UsersAPI_list page limit search =
     (let params = [(''page'', PyInt (arg_or 1 page)), (''limit'', PyInt (arg_or 20 limit))];
          params = set_if_truthy params ''search'' (opt_str search)
      in \<lparr>call_method = ''GET'', call_endpoint = ''/users'',
          call_params = Some params, call_json = None\<rparr>)"













section \<open>Properties and sample inputs\<close>



text \<open>A client built with the defaults of \<^verbatim>\<open>__init__\<close>, without and with a key.\<close>

definition default_client :: client where
  "default_client = AlgoSDK_init None ''http://localhost:4000/api/v1'' 30 3"

definition secret_client :: client where
  "secret_client = AlgoSDK_init (Some ''secret'') ''http://localhost:4000/api/v1'' 30 3"

text \<open>Servers: one that always gives the same answer, one that fails \<open>k\<close> times first.\<close>

definition answer :: "int \<Rightarrow> body \<Rightarrow> http_response" where
  "answer st b = \<lparr>status_code = st, content = b, retry_after = None\<rparr>"

definition always_answers :: "int \<Rightarrow> body \<Rightarrow> server" where
  "always_answers st b = (\<lambda>q n. Answered (answer st b))"

definition recovers_after :: "nat \<Rightarrow> pyval \<Rightarrow> server" where
  "recovers_after k v =
     (\<lambda>q n. if n < k then Answered (answer 500 Empty) else Answered (answer 200 (IsJson v)))"

definition rate_limited_body :: body where
  "rate_limited_body = IsJson (PyDict [(''error'', PyStr ''rate limited'')])"


section \<open>The retry loop\<close>

text \<open>The four methods the resource classes use are all on the list of the strategy.\<close>

lemma retryable_sdk_methods:
  "is_method_retryable ''GET''" "is_method_retryable ''POST''"
  "is_method_retryable ''PUT''" "is_method_retryable ''DELETE''"
  by (simp_all add: is_method_retryable_def method_whitelist_def upper_def upper_char_def)

lemma is_retry_500:
  "is_method_retryable m \<Longrightarrow> is_retry tot m 500 h"
  by (simp add: is_retry_def status_forcelist_def)

lemma is_retry_forcelist:
  "is_method_retryable m \<Longrightarrow> st \<in> set status_forcelist \<Longrightarrow> is_retry tot m st h"
  by (simp add: is_retry_def)

lemma not_is_retry_below_400:
  "st < 400 \<Longrightarrow> \<not> is_retry tot m st h"
  by (auto simp: is_retry_def status_forcelist_def RETRY_AFTER_STATUS_CODES_def)

lemma not_is_retry_404: "\<not> is_retry tot m 404 h"
  by (auto simp: is_retry_def status_forcelist_def RETRY_AFTER_STATUS_CODES_def)

lemma urlopen_retry_then_answer:
  assumes "is_method_retryable (req_method q)"
      and "\<forall>i<k. \<exists>r. net (n + i) = Answered r \<and> status_code r = 500"
      and "net (n + k) = Answered r"
      and "status_code r = 200"
      and "int k \<le> tot"
  shows "outcome (urlopen net q tot n) = Inr r \<and> wire (urlopen net q tot n) = replicate (Suc k) q"
  using assms
proof (induction k arbitrary: tot n)
  case 0
  then show ?case
    by (subst (1 2) urlopen.simps) (simp add: not_is_retry_below_400)
next
  case (Suc k)
  from Suc.prems(2) obtain r0 where r0: "net n = Answered r0" "status_code r0 = 500"
    by force
  have later: "\<forall>i<k. \<exists>r. net (Suc n + i) = Answered r \<and> status_code r = 500"
    using Suc.prems(2) by (metis Suc_less_eq add_Suc_shift)
  have last: "net (Suc n + k) = Answered r"
    using Suc.prems(3) by simp
  have budget: "int k \<le> tot - 1" "\<not> is_exhausted (tot - 1)"
    using Suc.prems(5) by (simp_all add: is_exhausted_def)
  have IH: "outcome (urlopen net q (tot - 1) (Suc n)) = Inr r
            \<and> wire (urlopen net q (tot - 1) (Suc n)) = replicate (Suc k) q"
    using Suc.IH [OF Suc.prems(1) later last Suc.prems(4) budget(1)] .
  show ?case
    using r0 budget(2) IH Suc.prems(1)
    by (subst (1 2) urlopen.simps) (simp add: is_retry_500 Let_def)
qed

lemma wire_urlopen: "wire (urlopen net q tot n) = replicate (length (wire (urlopen net q tot n))) q"
proof (induction net q tot n rule: urlopen.induct)
  case (1 net q tot n)
  show ?case
    apply (subst (1 2) urlopen.simps)
    using 1
    apply (auto split: attempt.splits simp: Let_def)
    done
qed

lemma wire_nonempty: "wire (urlopen net q tot n) \<noteq> []"
  by (subst urlopen.simps) (auto split: attempt.splits simp: Let_def)





lemma urlopen_exhausts:
  assumes "is_method_retryable (req_method q)"
      and "st \<in> set status_forcelist"
      and "\<forall>i. \<exists>r. net i = Answered r \<and> status_code r = st"
  shows "outcome (urlopen net q tot n) = Inl (RetryError (too_many st))
         \<and> length (wire (urlopen net q tot n)) = nat tot + 1"
proof (induction "nat tot" arbitrary: tot n)
  case 0
  from assms(3) obtain r where r: "net n = Answered r" "status_code r = st"
    by blast
  from 0 have "is_exhausted (tot - 1)"
    by (simp add: is_exhausted_def)
  with r assms(1,2) "0.hyps" show ?case
    by (subst (1 2) urlopen.simps) (simp add: is_retry_forcelist)
next
  case (Suc k)
  from assms(3) obtain r where r: "net n = Answered r" "status_code r = st"
    by blast
  from Suc.hyps(2) have "1 \<le> tot"
    by linarith
  then have go: "\<not> is_exhausted (tot - 1)"
    by (simp add: is_exhausted_def)
  from Suc.hyps(2) have k: "k = nat (tot - 1)"
    by linarith
  from Suc.hyps(1) [OF k, of "Suc n"] k Suc.hyps(2)
  have IH: "outcome (urlopen net q (tot - 1) (Suc n)) = Inl (RetryError (too_many st))"
           "length (wire (urlopen net q (tot - 1) (Suc n))) = nat tot"
    by simp_all
  from r go IH assms(1,2) show ?case
    by (subst (1 2) urlopen.simps) (simp add: is_retry_forcelist Let_def)
qed

lemma urlopen_returns_unretried:
  assumes "net n = Answered r"
      and "\<not> is_retry tot (req_method q) (status_code r) (retry_after r \<noteq> None)"
  shows "urlopen net q tot n = \<lparr>outcome = Inr r, wire = [q], sleeps = []\<rparr>"
  using assms by (subst urlopen.simps) simp

lemma wire_members: "x \<in> set (wire (urlopen net q tot n)) \<Longrightarrow> x = q"
  using wire_urlopen [of net q tot n] by (metis in_set_replicate)

lemma urlopen_returned_status:
  assumes "outcome (urlopen net q tot n) = Inr r"
      and "is_method_retryable (req_method q)"
  shows "status_code r \<notin> set status_forcelist"
  using assms
proof (induction net q tot n rule: urlopen.induct)
  case (1 net q tot n)
  show ?case
  proof (cases "net n")
    case (Failed e)
    with "1.prems" "1.IH"(1) [OF Failed] show ?thesis
      by (subst (asm) urlopen.simps) (auto simp: Let_def split: if_splits)
  next
    case (Answered a)
    show ?thesis
    proof (cases "is_retry tot (req_method q) (status_code a) (retry_after a \<noteq> None)")
      case True
      with Answered "1.prems" "1.IH"(2) [OF Answered] show ?thesis
        by (subst (asm) urlopen.simps) (auto simp: Let_def split: if_splits)
    next
      case False
      with Answered "1.prems"(1) have "r = a"
        by (subst (asm) urlopen.simps) simp
      with False "1.prems"(2) show ?thesis
        by (auto simp: is_retry_def)
    qed
  qed
qed

section \<open>Retry and recovery\<close>

text \<open>
  Claim C2. Let \<open>k\<close> be smaller than \<^verbatim>\<open>max_retries\<close>. If the server answers the first
  \<open>k\<close> attempts of a request with status 500 and attempt \<open>k + 1\<close> with status 200 and a
  body that decodes, then \<^verbatim>\<open>_request\<close> returns the decoded value, and it has made
  \<open>k + 1\<close> attempts. The method is one the strategy retries (all methods of the resource
  classes are).
\<close>

theorem C2_retry_then_success:
  assumes "is_method_retryable m"
      and "int k < max_retries c"
      and "\<forall>i<k. \<exists>r. srv (prepare c m (base_url c @ endpoint) params js) i = Answered r
                      \<and> status_code r = 500"
      and "srv (prepare c m (base_url c @ endpoint) params js) k = Answered r"
      and "status_code r = 200"
      and "content r = IsJson v"
  shows "fst (AlgoSDK_request c srv m endpoint params js) = Inr v
         \<and> attempts (AlgoSDK_request c srv m endpoint params js) = k + 1"
proof -
  let ?q = "prepare c m (base_url c @ endpoint) params js"
  have m: "is_method_retryable (req_method ?q)"
    using assms(1) by (simp add: prepare_def)
  have a: "\<forall>i<k. \<exists>r. srv ?q (0 + i) = Answered r \<and> status_code r = 500"
    using assms(3) by simp
  have b: "srv ?q (0 + k) = Answered r"
    using assms(4) by simp
  have c: "int k \<le> max_retries c"
    using assms(2) by simp
  from urlopen_retry_then_answer [OF m a b assms(5) c]
  have run: "outcome (urlopen (srv ?q) ?q (max_retries c) 0) = Inr r"
            "wire (urlopen (srv ?q) ?q (max_retries c) 0) = replicate (Suc k) ?q"
    by simp_all
  have ok: "check_response r = Inr v"
    using assms(5,6) by (simp add: check_response_def content_truthy_def response_json_def)
  show ?thesis
    using run ok
    by (simp add: AlgoSDK_request_def session_request_def Let_def attempts_def except_clause_def)
qed

theorem C2_retry_then_success_witness:
  "is_method_retryable ''GET''
   \<and> int 2 < max_retries default_client
   \<and> fst (AlgoSDK_request default_client (recovers_after 2 (PyDict [(''data'', PyList [])]))
            ''GET'' ''/users'' None None) = Inr (PyDict [(''data'', PyList [])])
   \<and> attempts (AlgoSDK_request default_client (recovers_after 2 (PyDict [(''data'', PyList [])]))
            ''GET'' ''/users'' None None) = 2 + 1"
proof -
  let ?v = "PyDict [(''data'', PyList [])]"
  have h1: "is_method_retryable ''GET''"
    by (rule retryable_sdk_methods)
  have h2: "int 2 < max_retries default_client"
    by (simp add: default_client_def AlgoSDK_init_def Let_def)
  have h3: "\<forall>i<2. \<exists>r. recovers_after 2 ?v
                (prepare default_client ''GET'' (base_url default_client @ ''/users'') None None) i
                 = Answered r \<and> status_code r = 500"
    by (simp add: recovers_after_def answer_def)
  have h4: "recovers_after 2 ?v
                (prepare default_client ''GET'' (base_url default_client @ ''/users'') None None) 2
             = Answered (answer 200 (IsJson ?v))"
    by (simp add: recovers_after_def)
  have h5: "status_code (answer 200 (IsJson ?v)) = 200"
    by (simp add: answer_def)
  have h6: "content (answer 200 (IsJson ?v)) = IsJson ?v"
    by (simp add: answer_def)
  from C2_retry_then_success
         [of "''GET''" 2 default_client "recovers_after 2 ?v" "''/users''" None None
             "answer 200 (IsJson ?v)" ?v, OF h1 h2 h3 h4 h5 h6] h1 h2
  show ?thesis by simp
qed




section \<open>Classification of failures\<close>

text \<open>
  What \<^verbatim>\<open>_request\<close> makes of a response whose body decodes, and of one whose body does
  not, for the four statuses it handles without looking at \<^verbatim>\<open>response.content\<close> first.
\<close>

lemma check_response_decoded:
  assumes "content r = IsJson v"
  shows "check_response r =
     (if status_code r = 401 then
        Inl (Algo (raise_error AlgoAuthError ''Authentication failed'' (Some 401) v))
      else if status_code r = 404 then
        Inl (Algo (raise_error AlgoNotFoundError ''Resource not found'' (Some 404) v))
      else if status_code r = 400 then
        Inl (Algo (raise_error AlgoValidationError ''Validation failed'' (Some 400) v))
      else if status_code r = 429 then
        Inl (Algo (raise_error AlgoRateLimitError ''Rate limit exceeded'' (Some 429) v))
      else if status_code r \<ge> 400 then
        Inl (Algo (raise_error AlgoAPIError (''API error: '' @ str_int (status_code r))
                     (Some (status_code r)) v))
      else Inr v)"
  using assms by (simp add: check_response_def response_json_def content_truthy_def)

lemma check_response_undecoded:
  assumes "content r = Empty \<or> content r = NotJson s"
      and "status_code r \<in> {401, 404, 400, 429}"
  shows "\<exists>e. check_response r = Inl (Lib (JSONDecodeError e))"
  using assms by (auto simp: check_response_def response_json_def)

text \<open>
  A response that is not retried is the one \<^verbatim>\<open>_request\<close> examines, after one attempt; an
  exception of the session becomes an error without status code and without response.
\<close>

lemma request_classified:
  assumes "srv (prepare c m (base_url c @ endpoint) params js) 0 = Answered r"
      and "\<not> is_retry (max_retries c) m (status_code r) (retry_after r \<noteq> None)"
  shows "fst (AlgoSDK_request c srv m endpoint params js) = except_clause (check_response r)
         \<and> attempts (AlgoSDK_request c srv m endpoint params js) = 1"
proof -
  let ?q = "prepare c m (base_url c @ endpoint) params js"
  have "\<not> is_retry (max_retries c) (req_method ?q) (status_code r) (retry_after r \<noteq> None)"
    using assms(2) by (simp add: prepare_def)
  from urlopen_returns_unretried [where net = "srv ?q" and n = 0, OF assms(1) this]
  show ?thesis
    by (simp add: AlgoSDK_request_def session_request_def Let_def attempts_def)
qed

lemma request_session_raised:
  assumes "outcome (snd (AlgoSDK_request c srv m endpoint params js)) = Inl e"
  shows "fst (AlgoSDK_request c srv m endpoint params js)
           = Inl (raise_error AlgoAPIError (''Request failed: '' @ str_exception e) None PyNone)"
  using assms by (simp add: AlgoSDK_request_def Let_def except_clause_def)

text \<open>
  A status of the force list on every attempt exhausts the strategy after
  \<^verbatim>\<open>max_retries + 1\<close> attempts; the session then raises \<^verbatim>\<open>RetryError\<close>, and the error of
  \<^verbatim>\<open>_request\<close> has neither status code nor response.
\<close>

lemma request_exhausted:
  assumes "is_method_retryable m"
      and "st \<in> set status_forcelist"
      and "\<forall>i. \<exists>r. srv (prepare c m (base_url c @ endpoint) params js) i = Answered r
                    \<and> status_code r = st"
  shows "fst (AlgoSDK_request c srv m endpoint params js)
           = Inl (raise_error AlgoAPIError (''Request failed: '' @ too_many st) None PyNone)
         \<and> attempts (AlgoSDK_request c srv m endpoint params js) = nat (max_retries c) + 1"
proof -
  let ?q = "prepare c m (base_url c @ endpoint) params js"
  have "is_method_retryable (req_method ?q)"
    using assms(1) by (simp add: prepare_def)
  from urlopen_exhausts [OF this assms(2,3), of "max_retries c" 0]
  show ?thesis
    by (simp add: AlgoSDK_request_def session_request_def Let_def attempts_def except_clause_def)
qed

text \<open>A 404 is never retried, and with a body that decodes it is reported as such.\<close>

lemma not_found_once:
  assumes "srv (prepare c m (base_url c @ endpoint) params js) 0 = Answered r"
      and "status_code r = 404"
  shows "attempts (AlgoSDK_request c srv m endpoint params js) = 1
         \<and> (content r = IsJson v \<longrightarrow>
              fst (AlgoSDK_request c srv m endpoint params js)
                = Inl (raise_error AlgoNotFoundError ''Resource not found'' (Some 404) v))"
proof -
  let ?q = "prepare c m (base_url c @ endpoint) params js"
  have "\<not> is_retry (max_retries c) (req_method ?q) (status_code r) (retry_after r \<noteq> None)"
    using assms(2) by (auto simp: is_retry_def status_forcelist_def RETRY_AFTER_STATUS_CODES_def)
  from urlopen_returns_unretried [where net = "srv ?q" and n = 0, OF assms(1) this]
  show ?thesis
    using assms(2)
    by (simp add: AlgoSDK_request_def session_request_def Let_def attempts_def except_clause_def
                  check_response_decoded)
qed

text \<open>
  Claim C1. Every failure of \<^verbatim>\<open>_request\<close> is to be an error whose kind follows the status
  (none: transport failure; 401, 404, 400, 429: the four special kinds; any other status from
  400 on: the general kind) and which carries the status code and the body. The code does
  so for a response that the session returns and whose body decodes (\<open>request_classified\<close>
  with \<open>check_response_decoded\<close>), and for a failure without response
  (\<open>request_session_raised\<close>), but not always. A 401 with an empty body makes
  \<^verbatim>\<open>response.json()\<close> raise inside the \<^verbatim>\<open>try\<close>; the \<^verbatim>\<open>except\<close> clause turns that into
  a plain \<^verbatim>\<open>AlgoAPIError\<close> without status code. A 502 on every attempt exhausts the
  strategy, and the error has no status code either. The theorem evaluates both inputs.
\<close>

theorem C1_unauthorized_empty_body:
  "fst (AlgoSDK_request default_client (always_answers 401 Empty) ''GET'' ''/users/7'' None None)
     = Inl \<lparr>error_class = AlgoAPIError,
            message = ''Request failed: Expecting value: line 1 column 1 (char 0)'',
            error_status_code = None, error_response = PyNone\<rparr>
   \<and> fst (AlgoSDK_request default_client (always_answers 502 (NotJson ''Bad Gateway''))
            ''POST'' ''/projects'' None (Some [(''name'', PyStr ''demo'')]))
     = Inl \<lparr>error_class = AlgoAPIError,
            message = ''Request failed: too many 502 error responses'',
            error_status_code = None, error_response = PyNone\<rparr>"
  by code_simp

text \<open>
  Claim C3. When every attempt is answered with 503, the error is to carry status code 503,
  after \<^verbatim>\<open>max_retries + 1\<close> attempts. With the default \<^verbatim>\<open>max_retries = 3\<close> the code makes
  the four attempts, but the error it raises has no status code: the exhausted strategy
  raises, and the \<^verbatim>\<open>except\<close> clause builds the error from the exception alone.
\<close>

theorem C3_unavailable_exhausted:
  "fst (AlgoSDK_request default_client (always_answers 503 Empty) ''GET'' ''/users'' None None)
     = Inl \<lparr>error_class = AlgoAPIError,
            message = ''Request failed: too many 503 error responses'',
            error_status_code = None, error_response = PyNone\<rparr>
   \<and> attempts (AlgoSDK_request default_client (always_answers 503 Empty) ''GET'' ''/users'' None None)
       = 4"
  by code_simp

text \<open>
  Claim C4. A 404 is to give, after a single attempt, the not-found error with status code
  404. The single attempt holds for every 404 (\<open>not_found_once\<close>), and so does the error
  when the body decodes. On a 404 with an empty body the code raises a plain
  \<^verbatim>\<open>AlgoAPIError\<close> without status code instead.
\<close>

theorem C4_not_found_empty_body:
  "fst (AlgoSDK_request default_client (always_answers 404 Empty) ''GET'' ''/users/7'' None None)
     = Inl \<lparr>error_class = AlgoAPIError,
            message = ''Request failed: Expecting value: line 1 column 1 (char 0)'',
            error_status_code = None, error_response = PyNone\<rparr>
   \<and> attempts (AlgoSDK_request default_client (always_answers 404 Empty) ''GET'' ''/users/7'' None None)
       = 1"
  by code_simp

text \<open>
  For a method of the strategy's list no run of \<^verbatim>\<open>_request\<close> ends in
  \<^verbatim>\<open>AlgoRateLimitError\<close>: a 429 is retried until the strategy is exhausted, and then the
  session raises instead of returning the response.
\<close>

lemma rate_limit_error_unreachable:
  assumes "is_method_retryable m"
      and "fst (AlgoSDK_request c srv m endpoint params js) = Inl e"
  shows "error_class e \<noteq> AlgoRateLimitError"
proof (cases "outcome (session_request c srv m (base_url c @ endpoint) params js)")
  case (Inl x)
  with assms(2) show ?thesis
    by (auto simp: AlgoSDK_request_def Let_def except_clause_def raise_error_def)
next
  case (Inr r)
  then have "outcome (urlopen (srv (prepare c m (base_url c @ endpoint) params js))
                        (prepare c m (base_url c @ endpoint) params js) (max_retries c) 0) = Inr r"
    by (simp add: session_request_def Let_def)
  from urlopen_returned_status [OF this] assms(1)
  have "status_code r \<noteq> 429"
    by (auto simp: prepare_def status_forcelist_def)
  with Inr assms(2) show ?thesis
    by (auto simp: AlgoSDK_request_def Let_def except_clause_def raise_error_def
                   check_response_def
             split: sum.splits if_splits)
qed

text \<open>
  Claim C5. A request answered with 429 and the body \<^verbatim>\<open>{"error": "rate limited"}\<close> on every
  attempt is to end, once the retries are used up, in the rate-limit error with status code
  429 and that body. The code ends in a plain \<^verbatim>\<open>AlgoAPIError\<close> without status code and
  without body.
\<close>

theorem C5_rate_limited_exhausted:
  "fst (AlgoSDK_request default_client (always_answers 429 rate_limited_body) ''GET'' ''/users'' None None)
     = Inl \<lparr>error_class = AlgoAPIError,
            message = ''Request failed: too many 429 error responses'',
            error_status_code = None, error_response = PyNone\<rparr>
   \<and> attempts (AlgoSDK_request default_client (always_answers 429 rate_limited_body) ''GET'' ''/users'' None None)
       = 4"
  by code_simp

section \<open>Success without a body\<close>

text \<open>
  Claim C8. A response with a status from 200 up to, but not including, 400 and an empty
  body makes \<^verbatim>\<open>_request\<close> return \<^verbatim>\<open>None\<close>, never an error: both whenever the session hands
  such a response back, and in particular when it is the answer to the first attempt, which
  is then the only one.
\<close>

theorem C8_empty_success_body:
  assumes "200 \<le> status_code r" and "status_code r < 400" and "content r = Empty"
  shows "(outcome (snd (AlgoSDK_request c srv m endpoint params js)) = Inr r \<longrightarrow>
            fst (AlgoSDK_request c srv m endpoint params js) = Inr PyNone)
         \<and> (srv (prepare c m (base_url c @ endpoint) params js) 0 = Answered r \<longrightarrow>
              fst (AlgoSDK_request c srv m endpoint params js) = Inr PyNone
              \<and> attempts (AlgoSDK_request c srv m endpoint params js) = 1)"
proof -
  have ok: "check_response r = Inr PyNone"
    using assms by (simp add: check_response_def content_truthy_def)
  have stay: "\<not> is_retry (max_retries c) m (status_code r) (retry_after r \<noteq> None)"
    using assms(2) by (auto simp: is_retry_def status_forcelist_def RETRY_AFTER_STATUS_CODES_def)
  show ?thesis
  proof (intro conjI impI)
    assume "outcome (snd (AlgoSDK_request c srv m endpoint params js)) = Inr r"
    with ok show "fst (AlgoSDK_request c srv m endpoint params js) = Inr PyNone"
      by (simp add: AlgoSDK_request_def Let_def except_clause_def)
  next
    assume first: "srv (prepare c m (base_url c @ endpoint) params js) 0 = Answered r"
    have "\<not> is_retry (max_retries c)
              (req_method (prepare c m (base_url c @ endpoint) params js))
              (status_code r) (retry_after r \<noteq> None)"
      using stay by (simp add: prepare_def)
    from urlopen_returns_unretried
           [where net = "srv (prepare c m (base_url c @ endpoint) params js)" and n = 0,
            OF first this] ok
    show "fst (AlgoSDK_request c srv m endpoint params js) = Inr PyNone"
     and "attempts (AlgoSDK_request c srv m endpoint params js) = 1"
      by (simp_all add: AlgoSDK_request_def session_request_def Let_def except_clause_def
                        attempts_def)
  qed
qed

theorem C8_empty_success_body_witness:
  "fst (AlgoSDK_request default_client (always_answers 204 Empty) ''DELETE'' ''/users/7'' None None)
     = Inr PyNone
   \<and> attempts (AlgoSDK_request default_client (always_answers 204 Empty) ''DELETE'' ''/users/7''
                 None None) = 1"
proof -
  have h1: "200 \<le> status_code (answer 204 Empty)"
   and h2: "status_code (answer 204 Empty) < 400"
   and h3: "content (answer 204 Empty) = Empty"
    by (simp_all add: answer_def)
  have h4: "always_answers 204 Empty
              (prepare default_client ''DELETE'' (base_url default_client @ ''/users/7'') None None) 0
            = Answered (answer 204 Empty)"
    by (simp add: always_answers_def)
  from C8_empty_success_body [OF h1 h2 h3, of default_client "always_answers 204 Empty"
                                 "''DELETE''" "''/users/7''" None None] h4
  show ?thesis by blast
qed

section \<open>Headers\<close>

lemma perform_wire:
  "x \<in> set (wire (snd (perform c srv k))) \<Longrightarrow>
   x = prepare c (call_method k) (base_url c @ call_endpoint k) (call_params k) (call_json k)"
  by (simp add: perform_def AlgoSDK_request_def session_request_def Let_def wire_members)

lemma init_headers:
  "dict_get (session_headers (AlgoSDK_init (Some ''secret'') url tmo retries)) ''Authorization''
     = Some ''Bearer secret''"
  "dict_get (session_headers (AlgoSDK_init (Some ''secret'') url tmo retries)) ''Content-Type''
     = Some ''application/json''"
  "dict_get (session_headers (AlgoSDK_init None url tmo retries)) ''Authorization'' = None"
  "dict_get (session_headers (AlgoSDK_init None url tmo retries)) ''Content-Type''
     = Some ''application/json''"
  by (simp_all add: AlgoSDK_init_def default_headers_def opt_str_def dict_get_def)

text \<open>
  Claim C6. A client built with \<^verbatim>\<open>api_key="secret"\<close> sends \<^verbatim>\<open>Authorization: Bearer secret\<close>
  with every request of every call, on every attempt; a client built without a key sends no
  \<^verbatim>\<open>Authorization\<close> header. Both send \<^verbatim>\<open>Content-Type: application/json\<close>. The headers
  are those the constructor stored: every request carries exactly \<open>session_headers\<close>, and
  assigning another \<open>api_key\<close> to the client afterwards changes nothing.
\<close>

theorem C6_headers_fixed_at_construction:
  "(\<forall>x \<in> set (wire (snd (perform (AlgoSDK_init (Some ''secret'') url tmo retries) srv k))).
       dict_get (req_headers x) ''Authorization'' = Some ''Bearer secret''
       \<and> dict_get (req_headers x) ''Content-Type'' = Some ''application/json'')
   \<and> (\<forall>x \<in> set (wire (snd (perform (AlgoSDK_init None url tmo retries) srv k))).
       dict_get (req_headers x) ''Authorization'' = None
       \<and> dict_get (req_headers x) ''Content-Type'' = Some ''application/json'')
   \<and> (\<forall>x \<in> set (wire (snd (perform c srv k))). req_headers x = session_headers c)
   \<and> wire (snd (perform c srv k)) \<noteq> []
   \<and> perform (c\<lparr>api_key := key'\<rparr>) srv k = perform c srv k"
proof (intro conjI ballI)
  fix x
  assume "x \<in> set (wire (snd (perform (AlgoSDK_init (Some ''secret'') url tmo retries) srv k)))"
  from perform_wire [OF this]
  show "dict_get (req_headers x) ''Authorization'' = Some ''Bearer secret''"
   and "dict_get (req_headers x) ''Content-Type'' = Some ''application/json''"
    by (simp_all add: prepare_def init_headers)
next
  fix x
  assume "x \<in> set (wire (snd (perform (AlgoSDK_init None url tmo retries) srv k)))"
  from perform_wire [OF this]
  show "dict_get (req_headers x) ''Authorization'' = None"
   and "dict_get (req_headers x) ''Content-Type'' = Some ''application/json''"
    by (simp_all add: prepare_def init_headers)
next
  fix x
  assume "x \<in> set (wire (snd (perform c srv k)))"
  from perform_wire [OF this]
  show "req_headers x = session_headers c"
    by (simp add: prepare_def)
next
  show "wire (snd (perform c srv k)) \<noteq> []"
    by (simp add: perform_def AlgoSDK_request_def session_request_def Let_def wire_nonempty)
  show "perform (c\<lparr>api_key := key'\<rparr>) srv k = perform c srv k"
    by (simp add: perform_def AlgoSDK_request_def session_request_def prepare_def)
qed

theorem C6_headers_fixed_at_construction_witness:
  "length (wire (snd (perform secret_client (always_answers 503 Empty)
                        (UsersAPI_list None None None)))) = 4
   \<and> map (\<lambda>x. dict_get (req_headers x) ''Authorization'')
          (wire (snd (perform secret_client (always_answers 503 Empty)
                        (UsersAPI_list None None None))))
       = replicate 4 (Some ''Bearer secret'')
   \<and> map (\<lambda>x. dict_get (req_headers x) ''Authorization'')
          (wire (snd (perform default_client (always_answers 503 Empty)
                        (UsersAPI_list None None None))))
       = replicate 4 None"
proof -
  let ?s = "wire (snd (perform secret_client (always_answers 503 Empty)
                         (UsersAPI_list None None None)))"
  let ?d = "wire (snd (perform default_client (always_answers 503 Empty)
                         (UsersAPI_list None None None)))"
  have len: "length ?s = 4" "length ?d = 4"
    by code_simp+
  have "\<forall>x \<in> set ?s. dict_get (req_headers x) ''Authorization'' = Some ''Bearer secret''"
   and "\<forall>x \<in> set ?d. dict_get (req_headers x) ''Authorization'' = None"
    using C6_headers_fixed_at_construction
            [of "''http://localhost:4000/api/v1''" 30 3 "always_answers 503 Empty"
                "UsersAPI_list None None None"]
    unfolding secret_client_def default_client_def by blast+
  then have "map (\<lambda>x. dict_get (req_headers x) ''Authorization'') ?s
               = replicate (length ?s) (Some ''Bearer secret'')"
        and "map (\<lambda>x. dict_get (req_headers x) ''Authorization'') ?d
               = replicate (length ?d) None"
    by (simp_all add: map_replicate_const [symmetric] cong: map_cong)
  with len show ?thesis by simp
qed

section \<open>Optional arguments of the resource methods\<close>




























end
